theory Spec2Isabelle
  imports Complex_Main
begin

section \<open>H2OFastTests: a shallow embedding of include/H2OFastTests.hpp\<close>

text \<open>
  The embedding follows namespace \<open>H2OFastTests::detail\<close>. A member \<open>x_\<close> of the source is
  the record field \<open>x\<close> (a name cannot end with an underscore here); the fields of
  \<open>LineInfo\<close> carry the prefix \<open>li_\<close>.

  \<^item> A \<open>Duration\<close>, a measured \<open>std::chrono::duration<double, std::milli>\<close>, is a \<open>real\<close>.
    The \<open>double\<close> and \<open>float\<close> values an assertion compares are not: their arithmetic is a
    parameter (\<open>fp\<close>), so that rounding, infinities and NaN are whatever the machine has.
  \<^item> The types of C++ are a type variable \<open>'ty\<close>, and which handler matches which thrown
    value is carried by the value: the class hierarchy of the user's program is open.
  \<^item> An exception is a value: a function that can throw returns the thrown value beside
    its result, and a state of \<open>run_tests\<close> holds the exception in flight.
  \<^item> A \<open>size_t\<close> count is a \<open>nat\<close>: it is the size of a vector that exists.
  \<^item> A \<open>TestFunctor\<close> and an observer's \<open>update\<close> are functions on an explicit world that
    return or throw; a procedure that hangs is outside the model.
  \<^item> A reference to a test of the registry is the index of the test in its \<open>TestList\<close>.
\<close>

subsection \<open>Text output\<close>

text \<open>The text a \<open>const char*\<close> denotes, which is what a \<open>std::string\<close> made or assigned
  from it holds: the characters before the first NUL.\<close>

definition c_str :: "string \<Rightarrow> string" where
  "c_str s = takeWhile (\<lambda>c. c \<noteq> CHR 0x00) s"

definition tab :: char where
  "tab = CHR 0x09"

definition endl :: string where
  "endl = [CHR 0x0A]"

fun show_nat :: "nat \<Rightarrow> string" where
  "show_nat n =
     (if n < 10 then [char_of (48 + n)]
      else show_nat (n div 10) @ [char_of (48 + n mod 10)])"

declare show_nat.simps [simp del]

definition show_int :: "int \<Rightarrow> string" where
  "show_int i = (if i < 0 then CHR ''-'' # show_nat (nat (- i)) else show_nat (nat i))"

text \<open>\<open>operator<<\<close> on a \<open>bool\<close> (no \<open>boolalpha\<close>).\<close>

definition show_bool :: "bool \<Rightarrow> string" where
  "show_bool b = (if b then ''1'' else ''0'')"

subsection \<open>LineInfo\<close>

record LineInfo =
  li_file :: string
  li_func :: string
  li_line :: int
  li_init :: bool

text \<open>The default constructor sets \<open>init_\<close> only; \<open>line_\<close> is never read while \<open>init_\<close> is
  false. The other constructor takes \<open>file\<close> and \<open>func\<close> as \<open>const char*\<close>.\<close>

definition LineInfo_default :: LineInfo where
  "LineInfo_default = \<lparr>li_file = [], li_func = [], li_line = 0, li_init = False\<rparr>"

definition LineInfo_ctor :: "string \<Rightarrow> string \<Rightarrow> int \<Rightarrow> LineInfo" where
  "LineInfo_ctor file_v func_v line_v =
     \<lparr>li_file = c_str file_v, li_func = c_str func_v, li_line = line_v, li_init = True\<rparr>"

definition isInit :: "LineInfo \<Rightarrow> bool" where
  "isInit li = li_init li"

definition show_LineInfo :: "LineInfo \<Rightarrow> string" where
  "show_LineInfo li =
     (if isInit li then li_file li @ '':'' @ show_int (li_line li) @ '' '' @ li_func li else [])"

subsection \<open>The types of the program\<close>

text \<open>
  What the source needs to know of the types of the program it is compiled into: the
  types \<open>std::exception\<close>, \<open>GenericTestFailure\<close> and \<open>bool\<close>, the class
  \<open>TestFailure<ValueTypeL, ValueTypeR, ExceptionType>\<close> for given arguments (\<open>None\<close> for
  \<open>void\<close>), and \<open>type_helper<T>::name()\<close>, a \<open>const char*\<close> that the implementation
  chooses.
\<close>

record 'ty cxx =
  ty_exception :: 'ty
  ty_GenericTestFailure :: 'ty
  ty_TestFailure :: "'ty \<Rightarrow> 'ty \<Rightarrow> 'ty option \<Rightarrow> 'ty"
  ty_bool :: 'ty
  type_name :: "'ty \<Rightarrow> string"

subsection \<open>TestFailure and its rendered text\<close>

datatype FailureType = equal | different | exception

text \<open>\<open>additionalInfos<Streamable, Exception>::get\<close>, the four specialisations. The values
  \<open>reached\<close> and \<open>expected\<close> arrive as the text \<open>operator<<\<close> gives them.\<close>

fun additionalInfos ::
  "bool \<Rightarrow> bool \<Rightarrow> FailureType \<Rightarrow> string \<Rightarrow> string \<Rightarrow> string \<Rightarrow> string" where
  "additionalInfos True False failure_type reached expected exception_name =
     replicate 3 tab @ ''[REACHED] '' @ reached @ endl @
     (case failure_type of
        equal \<Rightarrow> replicate 3 tab @ ''[EXPECTED EQUAL TO] '' @ expected @ endl
      | different \<Rightarrow> replicate 3 tab @ ''[EXPECTED DIFFERENT FROM] '' @ expected @ endl
      | exception \<Rightarrow> replicate 3 tab @ ''[ERROR] '' @ endl)"
| "additionalInfos False False failure_type reached expected exception_name =
     (case failure_type of
        equal \<Rightarrow>
          replicate 3 tab @ ''[REACHED] is different from [EXPECTED]. Expected [EQUAL TO]'' @ endl
      | different \<Rightarrow>
          replicate 3 tab @ ''[REACHED] is equal to [EXPECTED]. Expected [DIFFERENT FROM]'' @ endl
      | exception \<Rightarrow> replicate 3 tab @ ''[ERROR] '' @ endl)"
| "additionalInfos streamable True failure_type reached expected exception_name =
     (case failure_type of
        exception \<Rightarrow> replicate 2 tab @ ''[EXPECTED Exception] '' @ exception_name @ endl
      | _ \<Rightarrow> replicate 3 tab @ ''[ERROR] '' @ endl)"

text \<open>
  An object of class \<open>TestFailure<ValueTypeL, ValueTypeR, ExceptionType>\<close>: \<open>tf_class\<close> is that
  class. The stored values are kept as text: \<open>reached\<close> and \<open>expected\<close> hold what
  \<open>operator<<\<close> gives for them, \<open>None\<close> for a type that is not streamable;
  \<open>exception_type\<close> is the text of \<open>type_helper<ExceptionType>::name()\<close>, \<open>None\<close> when
  \<open>ExceptionType\<close> is \<open>void\<close>.
\<close>

record 'ty TestFailure =
  message :: string
  reached :: "string option"
  expected :: "string option"
  failure_type :: FailureType
  exception_type :: "string option"
  tf_class :: 'ty

text \<open>\<open>TestFailure::what()\<close>, called once on the caught object: it appends the additional
  information to \<open>message_\<close>, which \<open>TestFailure_message\<close> is after that, and returns
  \<open>message_.c_str()\<close>, a \<open>const char*\<close>.\<close>

definition TestFailure_message :: "'ty TestFailure \<Rightarrow> string" where
  "TestFailure_message f =
     message f @ [CHR 0x0A] @
     additionalInfos (reached f \<noteq> None \<and> expected f \<noteq> None) (exception_type f \<noteq> None)
       (failure_type f)
       (case reached f of Some r \<Rightarrow> r | None \<Rightarrow> [])
       (case expected f of Some e \<Rightarrow> e | None \<Rightarrow> [])
       (case exception_type f of Some n \<Rightarrow> n | None \<Rightarrow> [])"

definition TestFailure_what :: "'ty TestFailure \<Rightarrow> string" where
  "TestFailure_what f = c_str (TestFailure_message f)"

subsection \<open>Thrown values and handlers\<close>

text \<open>
  A thrown value is either a \<open>TestFailure\<close> made by \<open>FailureTest\<close>, or any other value. Of
  another value the model keeps what the source can see of it: the handler types that
  match it by the rule of the language (its own type, its accessible unambiguous base
  classes, the pointer types it converts to), and the \<open>const char*\<close> its \<open>what()\<close> returns,
  which is read only where the value is caught as a \<open>GenericTestFailure\<close> or as a
  \<open>std::exception\<close>. The user's program decides both.
\<close>

datatype 'ty thrown =
  Thrown_TestFailure "'ty TestFailure"
| Thrown_value "'ty \<Rightarrow> bool" string

text \<open>A \<open>catch\<close> clause: of a type (by value or by reference), or \<open>catch (...)\<close>.\<close>

datatype 'ty handler = Catch 'ty | Catch_all

text \<open>A \<open>TestFailure\<close> is matched by a handler of its own class and of its two bases:
  \<open>TestFailure : public GenericTestFailure\<close>, \<open>GenericTestFailure : public std::exception\<close>.\<close>

fun handler_matches :: "'ty cxx \<Rightarrow> 'ty handler \<Rightarrow> 'ty thrown \<Rightarrow> bool" where
  "handler_matches X Catch_all x = True"
| "handler_matches X (Catch E) (Thrown_TestFailure f) =
     (E = tf_class f \<or> E = ty_GenericTestFailure X \<or> E = ty_exception X)"
| "handler_matches X (Catch E) (Thrown_value matched what) = matched E"

text \<open>The handlers of a \<open>try\<close> block are tried in order: the index of the first that
  matches, \<open>None\<close> when none does and the exception leaves the block.\<close>

fun find_handler :: "'ty cxx \<Rightarrow> 'ty handler list \<Rightarrow> 'ty thrown \<Rightarrow> nat option" where
  "find_handler X [] x = None"
| "find_handler X (h # hs) x =
     (if handler_matches X h x then Some 0 else map_option Suc (find_handler X hs x))"

text \<open>The text of \<open>what()\<close> on a caught object, as the \<open>std::string\<close> assigned from it
  holds it.\<close>

fun thrown_what :: "'ty thrown \<Rightarrow> string" where
  "thrown_what (Thrown_TestFailure f) = TestFailure_what f"
| "thrown_what (Thrown_value matched what) = c_str what"

subsection \<open>FailureTest\<close>

text \<open>\<open>FailureTest<ValueTypeL, ValueTypeR, ExceptionType>\<close>, its template arguments first.
  \<open>None\<close>: the call returns. \<open>Some x\<close>: it throws \<open>x\<close>.\<close>

definition FailureTest ::
  "'ty cxx \<Rightarrow> 'ty \<Rightarrow> 'ty \<Rightarrow> 'ty option \<Rightarrow> bool \<Rightarrow> string option \<Rightarrow> string option \<Rightarrow> FailureType
     \<Rightarrow> string \<Rightarrow> LineInfo \<Rightarrow> 'ty thrown option" where
  "FailureTest X L R E condition reached_v expected_v failure_t msg lineInfo =
     (if \<not> condition then
        Some (Thrown_TestFailure
          \<lparr>message =
             (if isInit lineInfo then msg @ [tab] @ ''('' @ show_LineInfo lineInfo @ '')''
              else msg),
           reached = reached_v, expected = expected_v, failure_type = failure_t,
           exception_type = map_option (\<lambda>e. c_str (type_name X e)) E,
           tf_class = ty_TestFailure X L R E\<rparr>)
      else None)"

subsection \<open>The world of a test procedure\<close>

text \<open>
  What a procedure can read and change: the clock that
  \<open>std::chrono::high_resolution_clock::now()\<close> reads (in milliseconds; time passes while a
  procedure runs) and the user's own state, such as a counter the procedure increments.
\<close>

record 'u world =
  now :: real
  user :: 'u

text \<open>A \<open>std::function<void(void)>\<close>: the world after the call, and the thrown value if the
  call throws.\<close>

type_synonym ('u, 'ty) TestFunctor = "'u world \<Rightarrow> 'u world \<times> 'ty thrown option"

subsection \<open>AsserterExpression\<close>

text \<open>\<open>fail\<close>: \<open>FailureTest(false, false, false, FailureType::equal, message, lineInfo)\<close>,
  an instance for \<open>bool\<close>, \<open>bool\<close> and \<open>void\<close>.\<close>

definition fail :: "'ty cxx \<Rightarrow> string \<Rightarrow> LineInfo \<Rightarrow> 'ty thrown option" where
  "fail X msg lineInfo =
     FailureTest X (ty_bool X) (ty_bool X) None False (Some (show_bool False))
       (Some (show_bool False)) equal msg lineInfo"

text \<open>\<open>fail_exception<ExpectedException>\<close>:
  \<open>FailureTest<bool, bool, ExpectedException>(false, false, false, FailureType::exception, ...)\<close>.\<close>

definition fail_exception :: "'ty cxx \<Rightarrow> 'ty \<Rightarrow> string \<Rightarrow> LineInfo \<Rightarrow> 'ty thrown option" where
  "fail_exception X E msg lineInfo =
     FailureTest X (ty_bool X) (ty_bool X) (Some E) False (Some (show_bool False))
       (Some (show_bool False)) exception msg lineInfo"

text \<open>
  \<open>expectException<ExpectedException>\<close> on the stored procedure \<open>expr\<close>: a \<open>try\<close> block with
  the handlers \<open>catch (ExpectedException)\<close>, which returns, and \<open>catch (...)\<close>, which falls
  through to \<open>fail_exception\<close>, as a call that returns does.
\<close>

definition expectException ::
  "'ty cxx \<Rightarrow> 'ty \<Rightarrow> ('u, 'ty) TestFunctor \<Rightarrow> string \<Rightarrow> LineInfo \<Rightarrow> ('u, 'ty) TestFunctor" where
  "expectException X E expr msg lineInfo w =
     (let (w', r) = expr w in
      case r of
        None \<Rightarrow> (w', fail_exception X E msg lineInfo)
      | Some x \<Rightarrow>
          (case find_handler X [Catch E, Catch_all] x of
             Some 0 \<Rightarrow> (w', None)
           | Some (Suc n) \<Rightarrow> (w', fail_exception X E msg lineInfo)
           | None \<Rightarrow> (w', Some x)))"

text \<open>
  \<open>isEqualTo<T>(expected, message, lineInfo)\<close> on the stored value \<open>expr\<close> of type \<open>L\<close>, with
  \<open>T\<close> the type \<open>R\<close>: \<open>eq\<close> is their \<open>operator==\<close>, and \<open>show_l\<close> and \<open>show_r\<close> their
  \<open>operator<<\<close>, \<open>None\<close> for a type that has none.
\<close>

definition isEqualTo ::
  "'ty cxx \<Rightarrow> 'ty \<Rightarrow> 'ty \<Rightarrow> ('a \<Rightarrow> 'b \<Rightarrow> bool) \<Rightarrow> ('a \<Rightarrow> string) option \<Rightarrow> ('b \<Rightarrow> string) option
     \<Rightarrow> 'a \<Rightarrow> 'b \<Rightarrow> string \<Rightarrow> LineInfo \<Rightarrow> 'ty thrown option" where
  "isEqualTo X L R eq show_l show_r expr expected_v msg lineInfo =
     FailureTest X L R None (eq expr expected_v) (map_option (\<lambda>s. s expr) show_l)
       (map_option (\<lambda>s. s expected_v) show_r) equal msg lineInfo"

text \<open>
  The arithmetic of a floating type (\<open>double\<close> or \<open>float\<close>), as the machine has it: the
  type, the subtraction with its rounding, \<open>std::abs\<close>, \<open><=\<close> (false on a NaN) and
  \<open>operator<<\<close>.
\<close>

record ('d, 'ty) fp =
  fp_type :: 'ty
  fp_sub :: "'d \<Rightarrow> 'd \<Rightarrow> 'd"
  fp_abs :: "'d \<Rightarrow> 'd"
  fp_le :: "'d \<Rightarrow> 'd \<Rightarrow> bool"
  fp_show :: "'d \<Rightarrow> string"

text \<open>
  \<open>isEqualTo(double expected, double tolerance, message, lineInfo)\<close> on a stored value
  \<open>expr\<close> of the same type, and the \<open>float\<close> overload, which has the same body:
  \<open>diff = expected - expr_\<close>, then \<open>std::abs(diff) <= std::abs(tolerance)\<close>.
\<close>

definition isEqualTo_tolerance ::
  "'ty cxx \<Rightarrow> ('d, 'ty) fp \<Rightarrow> 'd \<Rightarrow> 'd \<Rightarrow> 'd \<Rightarrow> string \<Rightarrow> LineInfo \<Rightarrow> 'ty thrown option" where
  "isEqualTo_tolerance X F expr expected_v tolerance msg lineInfo =
     (let diff = fp_sub F expected_v expr in
      FailureTest X (fp_type F) (fp_type F) None
        (fp_le F (fp_abs F diff) (fp_abs F tolerance))
        (Some (fp_show F expr)) (Some (fp_show F expected_v)) equal msg lineInfo)"

subsection \<open>Test and SkippedTest\<close>

datatype Status = PASSED | FAILED | ERROR | SKIPPED | NONE

text \<open>The class of the object, which selects the \<open>run_private\<close> that \<open>run\<close> calls.\<close>

datatype TestClass = Class_Test | Class_SkippedTest

record ('u, 'ty) Test =
  dyn_class :: TestClass
  exec_time_ms :: real
  test_holder :: "('u, 'ty) TestFunctor"
  label :: string
  failure_reason :: string
  skipped_reason :: string
  error :: string
  status :: Status

text \<open>
  \<open>Test(const std::string& label, const TestFunctor&& test)\<close>. Its initialiser list names
  \<open>test_holder_\<close>, \<open>label_\<close> and \<open>status_\<close>; the strings are empty by default; \<open>exec_time_ms_\<close> is
  not named and a \<open>double\<close> is not initialised by default, so the member holds whatever
  its storage held: the parameter \<open>indet\<close>.
\<close>

definition Test_ctor :: "real \<Rightarrow> string \<Rightarrow> ('u, 'ty) TestFunctor \<Rightarrow> ('u, 'ty) Test" where
  "Test_ctor indet label_v test_v =
     \<lparr>dyn_class = Class_Test, exec_time_ms = indet, test_holder = test_v, label = label_v,
      failure_reason = [], skipped_reason = [], error = [], status = NONE\<rparr>"

text \<open>\<open>SkippedTest(reason, label, func)\<close>; the shorter constructors leave the reason, or the
  reason and the label, empty.\<close>

definition SkippedTest_ctor ::
  "real \<Rightarrow> string \<Rightarrow> string \<Rightarrow> ('u, 'ty) TestFunctor \<Rightarrow> ('u, 'ty) Test" where
  "SkippedTest_ctor indet reason label_v func_v =
     (Test_ctor indet label_v func_v)\<lparr>dyn_class := Class_SkippedTest, skipped_reason := reason\<rparr>"

definition make_test :: "real \<Rightarrow> string \<Rightarrow> ('u, 'ty) TestFunctor \<Rightarrow> ('u, 'ty) Test" where
  "make_test indet label_v func_v = Test_ctor indet label_v func_v"

definition make_skipped_test ::
  "real \<Rightarrow> string \<Rightarrow> string \<Rightarrow> ('u, 'ty) TestFunctor \<Rightarrow> ('u, 'ty) Test" where
  "make_skipped_test indet reason label_v func_v = SkippedTest_ctor indet reason label_v func_v"

definition getExecTimeMs :: "('u, 'ty) Test \<Rightarrow> real" where
  "getExecTimeMs t = exec_time_ms t"

definition getStatus :: "('u, 'ty) Test \<Rightarrow> Status" where
  "getStatus t = status t"

text \<open>
  \<open>Test::run_private\<close>: the test after the call, the world, and the exception that leaves
  the function, if one does. The \<open>try\<close> block has three handlers,
  \<open>catch (const GenericTestFailure& failure)\<close>, \<open>catch (const std::exception& e)\<close> and
  \<open>catch (...)\<close>; the duration is assigned after the block.
\<close>

definition Test_run_private ::
  "'ty cxx \<Rightarrow> ('u, 'ty) Test \<Rightarrow> 'u world \<Rightarrow> ('u, 'ty) Test \<times> 'u world \<times> 'ty thrown option" where
  "Test_run_private X t w =
     (let start = now w;
          (w1, r) = test_holder t w
      in case r of
           None \<Rightarrow> (t\<lparr>status := PASSED, exec_time_ms := now w1 - start\<rparr>, w1, None)
         | Some x \<Rightarrow>
             (case find_handler X
                     [Catch (ty_GenericTestFailure X), Catch (ty_exception X), Catch_all] x of
                Some 0 \<Rightarrow>
                  (t\<lparr>status := FAILED, failure_reason := thrown_what x,
                     exec_time_ms := now w1 - start\<rparr>, w1, None)
              | Some (Suc 0) \<Rightarrow>
                  (t\<lparr>status := ERROR, error := thrown_what x,
                     exec_time_ms := now w1 - start\<rparr>, w1, None)
              | Some (Suc (Suc n)) \<Rightarrow>
                  (t\<lparr>status := ERROR, error := ''Unkown error'',
                     exec_time_ms := now w1 - start\<rparr>, w1, None)
              | None \<Rightarrow> (t, w1, Some x)))"

text \<open>\<open>SkippedTest::run_private\<close>: \<open>status_ = SKIPPED\<close>.\<close>

definition SkippedTest_run_private ::
  "('u, 'ty) Test \<Rightarrow> 'u world \<Rightarrow> ('u, 'ty) Test \<times> 'u world \<times> 'ty thrown option" where
  "SkippedTest_run_private t w = (t\<lparr>status := SKIPPED\<rparr>, w, None)"

text \<open>\<open>Test::run\<close>: the virtual call.\<close>

definition Test_run ::
  "'ty cxx \<Rightarrow> ('u, 'ty) Test \<Rightarrow> 'u world \<Rightarrow> ('u, 'ty) Test \<times> 'u world \<times> 'ty thrown option" where
  "Test_run X t w =
     (case dyn_class t of
        Class_Test \<Rightarrow> Test_run_private X t w
      | Class_SkippedTest \<Rightarrow> SkippedTest_run_private t w)"

subsection \<open>Observers\<close>

text \<open>
  A \<open>std::shared_ptr<IRegistryObserver>\<close> is the address it holds. The
  \<open>std::set\<close> of them is the ascending list of its elements. The \<open>update\<close> methods of the
  observer objects are a parameter: what the object at a handle does to the world when it
  is given a \<open>TestInfo\<close>, the \<open>const\<close> reference to the test, and the value it throws if it
  throws.
\<close>

type_synonym handle = nat

type_synonym ('u, 'ty) updates =
  "handle \<Rightarrow> ('u, 'ty) Test \<Rightarrow> 'u world \<Rightarrow> 'u world \<times> 'ty thrown option"

subsection \<open>RegistryManager\<close>

record RegistryManager =
  run :: bool
  exec_time_ms_accumulator :: real
  tests_passed :: "nat list"
  tests_failed :: "nat list"
  tests_skipped :: "nat list"
  tests_with_error :: "nat list"
  list_observers :: "handle list"

text \<open>The constructor: \<open>run_(false), exec_time_ms_accumulator_(Duration{ 0 })\<close>; the vectors
  and the set start empty.\<close>

definition RegistryManager_ctor :: RegistryManager where
  "RegistryManager_ctor =
     \<lparr>run = False, exec_time_ms_accumulator = 0, tests_passed = [], tests_failed = [],
      tests_skipped = [], tests_with_error = [], list_observers = []\<rparr>"

definition addObserver :: "handle \<Rightarrow> RegistryManager \<Rightarrow> RegistryManager" where
  "addObserver observer m =
     m\<lparr>list_observers :=
         (if observer \<in> set (list_observers m) then list_observers m
          else insort observer (list_observers m))\<rparr>"

definition removeObserver :: "handle \<Rightarrow> RegistryManager \<Rightarrow> RegistryManager" where
  "removeObserver observer m = m\<lparr>list_observers := removeAll observer (list_observers m)\<rparr>"

text \<open>
  \<open>add_test(label, func)\<close> and \<open>skip_test(reason, label, func)\<close> push onto the scenario's
  \<open>TestList\<close>, \<open>get_registry()[type_index]\<close>, the only entry of the registry a manager
  touches.
\<close>

type_synonym ('u, 'ty) TestList = "('u, 'ty) Test list"

definition add_test ::
  "real \<Rightarrow> string \<Rightarrow> ('u, 'ty) TestFunctor \<Rightarrow> ('u, 'ty) TestList \<Rightarrow> ('u, 'ty) TestList" where
  "add_test indet label_v func_v ts = ts @ [make_test indet label_v func_v]"

definition skip_test ::
  "real \<Rightarrow> string \<Rightarrow> string \<Rightarrow> ('u, 'ty) TestFunctor \<Rightarrow> ('u, 'ty) TestList
     \<Rightarrow> ('u, 'ty) TestList" where
  "skip_test indet reason label_v func_v ts = ts @ [make_skipped_test indet reason label_v func_v]"

text \<open>
  The state \<open>run_tests\<close> works on: the manager, the scenario's tests, the world, the calls
  of \<open>update\<close> made so far, each with the observer called and the test referred to, and
  the exception in flight, if a call has thrown: from then on nothing more of
  \<open>run_tests\<close> is executed.
\<close>

record ('u, 'ty) run_state =
  mgr :: RegistryManager
  tests :: "('u, 'ty) TestList"
  world :: "'u world"
  calls :: "(handle \<times> nat) list"
  raised :: "'ty thrown option"

text \<open>\<open>observer->update(infos)\<close>.\<close>

definition notify_observer ::
  "('u, 'ty) updates \<Rightarrow> nat \<Rightarrow> handle \<Rightarrow> ('u, 'ty) run_state \<Rightarrow> ('u, 'ty) run_state" where
  "notify_observer upd i observer s =
     (if raised s \<noteq> None then s
      else let (w', r) = upd observer (tests s ! i) (world s) in
           s\<lparr>world := w', calls := calls s @ [(observer, i)], raised := r\<rparr>)"

text \<open>\<open>IRegistryObservable::notify\<close>: the loop over the set.\<close>

definition notify :: "('u, 'ty) updates \<Rightarrow> nat \<Rightarrow> ('u, 'ty) run_state \<Rightarrow> ('u, 'ty) run_state" where
  "notify upd i s = fold (notify_observer upd i) (list_observers (mgr s)) s"

text \<open>The body of the loop of \<open>run_tests\<close> on the test at index \<open>i\<close>, in three parts:
  \<open>test->run(); exec_time_ms_accumulator_ += test->getExecTimeMs();\<close> then \<open>notify\<close>, then
  the \<open>switch\<close> on the status.\<close>

definition run_test :: "'ty cxx \<Rightarrow> nat \<Rightarrow> ('u, 'ty) run_state \<Rightarrow> ('u, 'ty) run_state" where
  "run_test X i s =
     (if raised s \<noteq> None then s
      else let (t', w', r) = Test_run X (tests s ! i) (world s) in
           case r of
             None \<Rightarrow>
               s\<lparr>tests := (tests s)[i := t'], world := w',
                 mgr := (mgr s)\<lparr>exec_time_ms_accumulator :=
                          exec_time_ms_accumulator (mgr s) + getExecTimeMs t'\<rparr>\<rparr>
           | Some x \<Rightarrow> s\<lparr>tests := (tests s)[i := t'], world := w', raised := Some x\<rparr>)"

definition file_test :: "nat \<Rightarrow> ('u, 'ty) run_state \<Rightarrow> ('u, 'ty) run_state" where
  "file_test i s =
     (if raised s \<noteq> None then s
      else s\<lparr>mgr :=
             (case getStatus (tests s ! i) of
                PASSED \<Rightarrow> (mgr s)\<lparr>tests_passed := tests_passed (mgr s) @ [i]\<rparr>
              | FAILED \<Rightarrow> (mgr s)\<lparr>tests_failed := tests_failed (mgr s) @ [i]\<rparr>
              | SKIPPED \<Rightarrow> (mgr s)\<lparr>tests_skipped := tests_skipped (mgr s) @ [i]\<rparr>
              | ERROR \<Rightarrow> (mgr s)\<lparr>tests_with_error := tests_with_error (mgr s) @ [i]\<rparr>
              | NONE \<Rightarrow> mgr s)\<rparr>)"

definition loop_body ::
  "'ty cxx \<Rightarrow> ('u, 'ty) updates \<Rightarrow> nat \<Rightarrow> ('u, 'ty) run_state \<Rightarrow> ('u, 'ty) run_state" where
  "loop_body X upd i s = file_test i (notify upd i (run_test X i s))"

text \<open>The state after the first \<open>k\<close> tests, and the state in which the \<open>notify\<close> of test
  \<open>k\<close> is called.\<close>

definition loop_head ::
  "'ty cxx \<Rightarrow> ('u, 'ty) updates \<Rightarrow> nat \<Rightarrow> ('u, 'ty) run_state \<Rightarrow> ('u, 'ty) run_state" where
  "loop_head X upd k s = fold (loop_body X upd) [0..<k] s"

definition at_notify ::
  "'ty cxx \<Rightarrow> ('u, 'ty) updates \<Rightarrow> nat \<Rightarrow> ('u, 'ty) run_state \<Rightarrow> ('u, 'ty) run_state" where
  "at_notify X upd k s = run_test X k (loop_head X upd k s)"

text \<open>
  \<open>run_tests\<close>: no exception is in flight when it is called; the loop over every test of
  the list; then \<open>run_ = true\<close>, unless an exception has left the loop, which leaves
  \<open>run_tests\<close> with it.
\<close>

definition run_tests ::
  "'ty cxx \<Rightarrow> ('u, 'ty) updates \<Rightarrow> ('u, 'ty) run_state \<Rightarrow> ('u, 'ty) run_state" where
  "run_tests X upd s =
     (let s' = loop_head X upd (length (tests s)) (s\<lparr>raised := None\<rparr>) in
      if raised s' = None then s'\<lparr>mgr := (mgr s')\<lparr>run := True\<rparr>\<rparr> else s')"

text \<open>The accessors.\<close>

definition getPassedCount :: "RegistryManager \<Rightarrow> nat" where
  "getPassedCount m = (if run m then length (tests_passed m) else 0)"

definition getPassedTests :: "RegistryManager \<Rightarrow> nat list" where
  "getPassedTests m = tests_passed m"

definition getFailedCount :: "RegistryManager \<Rightarrow> nat" where
  "getFailedCount m = (if run m then length (tests_failed m) else 0)"

definition getFailedTests :: "RegistryManager \<Rightarrow> nat list" where
  "getFailedTests m = tests_failed m"

definition getSkippedCount :: "RegistryManager \<Rightarrow> nat" where
  "getSkippedCount m = (if run m then length (tests_skipped m) else 0)"

definition getSkippedTests :: "RegistryManager \<Rightarrow> nat list" where
  "getSkippedTests m = tests_skipped m"

definition getWithErrorCount :: "RegistryManager \<Rightarrow> nat" where
  "getWithErrorCount m = (if run m then length (tests_with_error m) else 0)"

definition getWithErrorTests :: "RegistryManager \<Rightarrow> nat list" where
  "getWithErrorTests m = tests_with_error m"

definition getAllTestsCount :: "RegistryManager \<Rightarrow> ('u, 'ty) TestList \<Rightarrow> nat" where
  "getAllTestsCount m ts = (if run m then length ts else 0)"

definition getAllTests :: "RegistryManager \<Rightarrow> ('u, 'ty) TestList \<Rightarrow> ('u, 'ty) TestList" where
  "getAllTests m ts = ts"

definition getAllTestsExecTimeMs :: "RegistryManager \<Rightarrow> real" where
  "getAllTestsExecTimeMs m = (if run m then exec_time_ms_accumulator m else 0)"

text \<open>The run-related members as the constructor leaves them; attaching and detaching
  observers does not touch them.\<close>

definition not_run_yet :: "RegistryManager \<Rightarrow> bool" where
  "not_run_yet m =
     (\<not> run m \<and> exec_time_ms_accumulator m = 0 \<and> tests_passed m = [] \<and> tests_failed m = [] \<and>
      tests_skipped m = [] \<and> tests_with_error m = [])"

subsection \<open>The run as the specification words it\<close>


subsection \<open>An example program\<close>

text \<open>
  Types of a program that uses the header: some standard exception classes with their
  bases, the classes of the header, and a few others. A thrown object of one of the
  classes is matched by the handlers of the class and of its bases; a thrown \<open>int*\<close> by
  the handlers of \<open>int*\<close> and, through the pointer conversion, \<open>void*\<close>.
\<close>

datatype cxx_type =
  T_exception | T_logic_error | T_domain_error | T_runtime_error | T_GenericTestFailure
| T_TestFailure cxx_type cxx_type "cxx_type option"
| T_bool | T_char | T_double | T_int_ptr | T_void_ptr

fun bases :: "cxx_type \<Rightarrow> cxx_type list" where
  "bases T_logic_error = [T_logic_error, T_exception]"
| "bases T_domain_error = [T_domain_error, T_logic_error, T_exception]"
| "bases T_runtime_error = [T_runtime_error, T_exception]"
| "bases T_GenericTestFailure = [T_GenericTestFailure, T_exception]"
| "bases T_int_ptr = [T_int_ptr, T_void_ptr]"
| "bases T = [T]"

fun ex_type_name :: "cxx_type \<Rightarrow> string" where
  "ex_type_name T_exception = ''St9exception''"
| "ex_type_name T_logic_error = ''St11logic_error''"
| "ex_type_name T_domain_error = ''St12domain_error''"
| "ex_type_name T_runtime_error = ''St13runtime_error''"
| "ex_type_name T = ''?''"

definition ex_cxx :: "cxx_type cxx" where
  "ex_cxx =
     \<lparr>ty_exception = T_exception, ty_GenericTestFailure = T_GenericTestFailure,
      ty_TestFailure = T_TestFailure, ty_bool = T_bool, type_name = ex_type_name\<rparr>"

definition thrown_object :: "cxx_type \<Rightarrow> string \<Rightarrow> cxx_type thrown" where
  "thrown_object T what = Thrown_value (\<lambda>E. E \<in> set (bases T)) what"

text \<open>A floating arithmetic on the reals that does not round: it is the arithmetic of
  \<open>double\<close> on the operands of the examples below, the differences of which are
  representable.\<close>

definition ex_fp :: "(real, cxx_type) fp" where
  "ex_fp =
     \<lparr>fp_type = T_double, fp_sub = (\<lambda>a b. a - b), fp_abs = (\<lambda>a. \<bar>a\<bar>), fp_le = (\<lambda>a b. a \<le> b),
      fp_show = (\<lambda>a. [])\<rparr>"

text \<open>
  Observers that return and leave the world alone, as \<open>ConsoleIO_Observer\<close> does but for
  its output. Four tests in registration order: \<open>a\<close> takes 3 ms, increments the user's
  counter and returns; \<open>b\<close> takes 2 ms and calls \<open>fail\<close>; \<open>c\<close> takes 1 ms and throws a
  \<open>std::domain_error\<close>; \<open>d\<close> is skipped, its duration member holding 7 from its storage.
  The manager has the observers 5 and 9 attached and has not run.
\<close>

definition no_effect :: "('u, 'ty) updates" where
  "no_effect observer t w = (w, None)"

definition ex_tests :: "(nat, cxx_type) TestList" where
  "ex_tests =
     skip_test 7 ''later'' ''d'' (\<lambda>w. (w\<lparr>user := 99\<rparr>, None))
       (add_test 0 ''c''
          (\<lambda>w. (w\<lparr>now := now w + 1\<rparr>, Some (thrown_object T_domain_error ''dom'')))
          (add_test 0 ''b'' (\<lambda>w. (w\<lparr>now := now w + 2\<rparr>, fail ex_cxx ''boom'' LineInfo_default))
             (add_test 0 ''a'' (\<lambda>w. (w\<lparr>now := now w + 3, user := Suc (user w)\<rparr>, None)) [])))"

definition ex_state :: "(nat, cxx_type) run_state" where
  "ex_state =
     \<lparr>mgr = addObserver 5 (addObserver 9 RegistryManager_ctor), tests = ex_tests,
      world = \<lparr>now = 0, user = 0\<rparr>, calls = [], raised = None\<rparr>"


definition throwing_9 :: "('u, cxx_type) updates" where
  "throwing_9 observer t w =
     (w, if observer = 9 then Some (thrown_object T_runtime_error ''observer'') else None)"

text \<open>Two tests for the failure boundary: one whose procedure throws a
  \<open>GenericTestFailure\<close> of its own, and one that asserts that the character NUL equals
  \<open>a\<close>, with \<open>operator<<\<close> on a \<open>char\<close> writing the character.\<close>

definition ex_own_failure :: "(unit, cxx_type) Test" where
  "ex_own_failure =
     make_test 0 ''t'' (\<lambda>w. (w, Some (thrown_object T_GenericTestFailure ''std::exception'')))"

definition ex_nul_failure :: "(unit, cxx_type) Test" where
  "ex_nul_failure =
     make_test 0 ''t''
       (\<lambda>w. (w, isEqualTo ex_cxx T_char T_char (\<lambda>a b. a = b) (Some (\<lambda>c. [c])) (Some (\<lambda>c. [c]))
                  (CHR 0x00) CHR ''a'' ''msg'' LineInfo_default))"

section \<open>The failure boundary of a test case\<close>

text \<open>The definitions to unfold where a concrete run is evaluated.\<close>

lemmas ex_defs = ex_state_def ex_tests_def no_effect_def add_test_def skip_test_def make_test_def
  make_skipped_test_def Test_ctor_def SkippedTest_ctor_def addObserver_def RegistryManager_ctor_def
  thrown_object_def ex_cxx_def

lemmas run_defs = run_tests_def loop_head_def at_notify_def loop_body_def run_test_def notify_def
  notify_observer_def file_test_def Test_run_def Test_run_private_def SkippedTest_run_private_def
  getStatus_def getExecTimeMs_def fail_def FailureTest_def

lemmas accessor_defs = getPassedCount_def getFailedCount_def getSkippedCount_def
  getWithErrorCount_def getAllTestsCount_def getAllTestsExecTimeMs_def getPassedTests_def
  getFailedTests_def getSkippedTests_def getWithErrorTests_def getAllTests_def

text \<open>A list of handlers that ends with \<open>catch (...)\<close> lets nothing through; the handler
  that the two \<open>try\<close> blocks of the source select.\<close>

lemma find_handler_Catch_all: "find_handler X (hs @ [Catch_all]) x \<noteq> None"
  by (induction hs) simp_all

lemma find_handler_run_private:
  "find_handler X [Catch G, Catch S, Catch_all] x =
     Some (if handler_matches X (Catch G) x then 0
           else if handler_matches X (Catch S) x then Suc 0 else Suc (Suc 0))"
  by simp

lemma find_handler_expectException:
  "find_handler X [Catch E, Catch_all] x =
     Some (if handler_matches X (Catch E) x then 0 else Suc 0)"
  by simp

text \<open>No exception leaves \<open>run\<close>, and both versions of \<open>run_private\<close> assign a status.\<close>

lemma Test_run_private_returns: "snd (snd (Test_run_private X t w)) = None"
  unfolding Test_run_private_def find_handler_run_private
  by (simp add: Let_def split: prod.split option.split)

lemma Test_run_returns: "snd (snd (Test_run X t w)) = None"
  by (simp add: Test_run_def Test_run_private_returns SkippedTest_run_private_def
      split: TestClass.split)

lemma Test_run_private_status: "status (fst (Test_run_private X t w)) \<noteq> NONE"
  unfolding Test_run_private_def find_handler_run_private
  by (simp add: Let_def split: prod.split option.split)

lemma Test_run_status: "status (fst (Test_run X t w)) \<noteq> NONE"
  by (simp add: Test_run_def Test_run_private_status SkippedTest_run_private_def
      split: TestClass.split)

text \<open>What the assertion engine throws is a \<open>TestFailure\<close>, which the first handler of
  \<open>run_private\<close> matches.\<close>

lemma FailureTest_throws_TestFailure:
  "FailureTest X L R E c r e ft msg li = Some x \<Longrightarrow> \<exists>f. x = Thrown_TestFailure f"
  by (auto simp: FailureTest_def split: if_splits)

lemma TestFailure_caught_as_GenericTestFailure:
  "handler_matches X (Catch (ty_GenericTestFailure X)) (Thrown_TestFailure f)"
  by simp

text \<open>
  Claim C1, as the code has it. For a test of class \<open>Test\<close> whose procedure, called in
  world \<open>w\<close>, ends in world \<open>w1\<close> with result \<open>r\<close>: \<open>run\<close> returns, in world \<open>w1\<close> and with
  no exception leaving it, and the test it leaves has
  \<^item> status \<open>PASSED\<close> when the procedure returned;
  \<^item> status \<open>FAILED\<close>, and as failure reason the text \<open>what()\<close> returns (a C string: the
    rendered text up to its first NUL, if it has one), when the procedure threw a
    \<open>TestFailure\<close> of the assertion engine, and also when it threw any other value that a
    handler of \<open>GenericTestFailure\<close> matches;
  \<^item> status \<open>ERROR\<close> and the text of \<open>what()\<close> as error when it threw another value that a
    handler of \<open>std::exception\<close> matches;
  \<^item> status \<open>ERROR\<close> and the fixed text \<open>Unkown error\<close> when it threw anything else.
\<close>

theorem run_classifies_outcome:
  assumes "dyn_class t = Class_Test" and "test_holder t w = (w1, r)"
  shows "\<exists>t'. Test_run X t w = (t', w1, None) \<and>
     (case r of
        None \<Rightarrow> status t' = PASSED
      | Some (Thrown_TestFailure f) \<Rightarrow>
          status t' = FAILED \<and> failure_reason t' = TestFailure_what f
      | Some (Thrown_value matched what) \<Rightarrow>
          if matched (ty_GenericTestFailure X)
          then status t' = FAILED \<and> failure_reason t' = c_str what
          else if matched (ty_exception X) then status t' = ERROR \<and> error t' = c_str what
          else status t' = ERROR \<and> error t' = ''Unkown error'')"
proof (cases r)
  case None
  with assms show ?thesis
    by (simp add: Test_run_def Test_run_private_def)
next
  case (Some x)
  with assms show ?thesis
    by (cases x) (simp_all add: Test_run_def Test_run_private_def)
qed

text \<open>The theorem at a test whose procedure takes 3 ms and then calls \<open>fail\<close>.\<close>

theorem run_classifies_outcome_witness:
  "dyn_class (make_test 0 ''t'' (\<lambda>w. (w\<lparr>now := 3\<rparr>, fail ex_cxx ''boom'' LineInfo_default)))
     = Class_Test \<and>
   test_holder (make_test 0 ''t'' (\<lambda>w. (w\<lparr>now := 3\<rparr>, fail ex_cxx ''boom'' LineInfo_default)))
       \<lparr>now = 0, user = ()\<rparr>
     = (\<lparr>now = 3, user = ()\<rparr>, fail ex_cxx ''boom'' LineInfo_default) \<and>
   status (fst (Test_run ex_cxx
       (make_test 0 ''t'' (\<lambda>w. (w\<lparr>now := 3\<rparr>, fail ex_cxx ''boom'' LineInfo_default)))
       \<lparr>now = 0, user = ()\<rparr>))
     = FAILED"
proof -
  let ?t = "make_test 0 ''t'' (\<lambda>w. (w\<lparr>now := 3\<rparr>, fail ex_cxx ''boom'' LineInfo_default))"
  let ?w = "\<lparr>now = 0, user = ()\<rparr>"
  have h1: "dyn_class ?t = Class_Test"
    by (simp add: make_test_def Test_ctor_def)
  have h2: "test_holder ?t ?w = (\<lparr>now = 3, user = ()\<rparr>, fail ex_cxx ''boom'' LineInfo_default)"
    by (simp add: make_test_def Test_ctor_def)
  from run_classifies_outcome [OF h1 h2, of ex_cxx] h1 h2 show ?thesis
    by (auto simp: fail_def FailureTest_def)
qed

text \<open>
  The claim as stated fails twice. A procedure that throws a \<open>GenericTestFailure\<close> of its
  own, an exception that the assertion engine has not produced, leaves the test \<open>FAILED\<close>
  and not \<open>ERROR\<close>. And the failure reason is not always the whole rendered text: for the
  assertion on the character NUL it stops before that character, where the rendered text
  goes on with the expected value.
\<close>

theorem user_thrown_GenericTestFailure_is_failed:
  "status (fst (Test_run ex_cxx ex_own_failure \<lparr>now = 0, user = ()\<rparr>)) = FAILED \<and>
   failure_reason (fst (Test_run ex_cxx ex_nul_failure \<lparr>now = 0, user = ()\<rparr>)) =
     ''msg'' @ [CHR 0x0A, tab, tab, tab] @ ''[REACHED] '' \<and>
   TestFailure_message
     \<lparr>message = ''msg'', reached = Some [CHR 0x00], expected = Some ''a'',
      failure_type = equal, exception_type = None,
      tf_class = T_TestFailure T_char T_char None\<rparr> =
     ''msg'' @ [CHR 0x0A, tab, tab, tab] @ ''[REACHED] '' @ [CHR 0x00, CHR 0x0A, tab, tab, tab] @
     ''[EXPECTED EQUAL TO] a'' @ [CHR 0x0A]"
proof (intro conjI)
  show "status (fst (Test_run ex_cxx ex_own_failure \<lparr>now = 0, user = ()\<rparr>)) = FAILED"
    by (simp add: Test_run_def Test_run_private_def ex_own_failure_def make_test_def
        Test_ctor_def thrown_object_def ex_cxx_def)
  show "failure_reason (fst (Test_run ex_cxx ex_nul_failure \<lparr>now = 0, user = ()\<rparr>)) =
     ''msg'' @ [CHR 0x0A, tab, tab, tab] @ ''[REACHED] ''"
    by (simp add: Test_run_def Test_run_private_def ex_nul_failure_def make_test_def
        Test_ctor_def isEqualTo_def FailureTest_def TestFailure_what_def
        TestFailure_message_def c_str_def ex_cxx_def LineInfo_default_def isInit_def tab_def
        endl_def numeral_3_eq_3)
  show "TestFailure_message
     \<lparr>message = ''msg'', reached = Some [CHR 0x00], expected = Some ''a'',
      failure_type = equal, exception_type = None,
      tf_class = T_TestFailure T_char T_char None\<rparr> =
     ''msg'' @ [CHR 0x0A, tab, tab, tab] @ ''[REACHED] '' @ [CHR 0x00, CHR 0x0A, tab, tab, tab] @
     ''[EXPECTED EQUAL TO] a'' @ [CHR 0x0A]"
    by (simp add: TestFailure_message_def tab_def endl_def numeral_3_eq_3)
qed

section \<open>A skipped test\<close>

text \<open>\<open>run\<close> on a \<open>SkippedTest\<close> changes the status and nothing else: the procedure is not
  called, so the world is the one before, and the duration is the one the constructor
  left.\<close>

lemma skipped_test_run:
  "Test_run X (make_skipped_test indet reason label_v func_v) w =
     ((make_skipped_test indet reason label_v func_v)\<lparr>status := SKIPPED\<rparr>, w, None)"
  by (simp add: Test_run_def SkippedTest_run_private_def make_skipped_test_def
      SkippedTest_ctor_def Test_ctor_def)

lemma skipped_test_duration:
  "getExecTimeMs (fst (Test_run X (make_skipped_test indet reason label_v func_v) w)) = indet"
  unfolding skipped_test_run
  by (simp add: getExecTimeMs_def make_skipped_test_def SkippedTest_ctor_def Test_ctor_def)

text \<open>
  Claim C5. A skipped test whose procedure would increment a counter, built in storage
  that held 7 where \<open>exec_time_ms_\<close> lies, and run with the counter at 0: the counter is
  still 0 and the status is \<open>SKIPPED\<close>, as the claim says, but the reported duration is 7:
  no constructor initialises \<open>exec_time_ms_\<close> and \<open>SkippedTest::run_private\<close> does not assign
  it.
\<close>

theorem skipped_test_reports_uninitialised_duration:
  "(let (t', w', r) =
      Test_run ex_cxx
        (make_skipped_test 7 ''later'' ''t'' (\<lambda>w. (w\<lparr>user := Suc (user w)\<rparr>, None)))
        \<lparr>now = 0, user = 0\<rparr>
    in (user w', getStatus t', getExecTimeMs t')) = (0, SKIPPED, 7)"
  unfolding skipped_test_run
  by (simp add: getStatus_def getExecTimeMs_def make_skipped_test_def
      SkippedTest_ctor_def Test_ctor_def)

section \<open>Assertions\<close>

text \<open>
  Claim C6, as the code has it. \<open>isEqualTo(expected, tolerance)\<close> rejects no tolerance: it
  compares with \<open>std::abs(tolerance)\<close>. For every tolerance the call returns iff
  \<open>std::abs(diff) <= std::abs(tolerance)\<close> holds of the difference \<open>diff\<close> the machine
  computes for \<open>expected - actual\<close>, with its rounding, and otherwise throws a \<open>TestFailure\<close>
  of type \<open>equal\<close> that carries the two values.
\<close>

theorem isEqualTo_tolerance_uses_magnitude:
  "isEqualTo_tolerance X F actual expected_v tolerance msg li =
     (if fp_le F (fp_abs F (fp_sub F expected_v actual)) (fp_abs F tolerance) then None
      else Some (Thrown_TestFailure
        \<lparr>message = (if isInit li then msg @ [tab] @ ''('' @ show_LineInfo li @ '')'' else msg),
         reached = Some (fp_show F actual), expected = Some (fp_show F expected_v),
         failure_type = equal, exception_type = None,
         tf_class = ty_TestFailure X (fp_type F) (fp_type F) None\<rparr>))"
  by (simp add: isEqualTo_tolerance_def FailureTest_def)

text \<open>For a tolerance that \<open>std::abs\<close> leaves as it is, this is the band of the
  specification, over the machine's difference.\<close>

lemma isEqualTo_tolerance_nonnegative:
  "fp_abs F tolerance = tolerance \<Longrightarrow>
   isEqualTo_tolerance X F actual expected_v tolerance msg li = None \<longleftrightarrow>
   fp_le F (fp_abs F (fp_sub F expected_v actual)) tolerance"
  by (simp add: isEqualTo_tolerance_def FailureTest_def)

text \<open>The claim as stated fails: with the tolerance \<open>-1\<close>, the value 0.5 and the expected
  value 0, the call is not rejected; it returns, the assertion holding.\<close>

theorem negative_tolerance_is_accepted:
  "(- 1 :: real) < 0 \<and>
   isEqualTo_tolerance ex_cxx ex_fp (1 / 2) 0 (- 1) [] LineInfo_default = None"
  by (simp add: isEqualTo_tolerance_def FailureTest_def ex_fp_def)

text \<open>What \<open>fail_exception<E>\<close> throws: a \<open>TestFailure<bool, bool, E>\<close> of type \<open>exception\<close>
  that names \<open>E\<close>.\<close>

lemma fail_exception_throws:
  "\<exists>f. fail_exception X E msg li = Some (Thrown_TestFailure f) \<and>
       failure_type f = exception \<and> exception_type f = Some (c_str (type_name X E)) \<and>
       tf_class f = ty_TestFailure X (ty_bool X) (ty_bool X) (Some E)"
  by (simp add: fail_exception_def FailureTest_def)

text \<open>
  Claim C7, as the code has it. \<open>expectException<E>\<close> returns iff the procedure throws a
  value that the handler \<open>catch (E)\<close> matches by the rule of the language: an object of
  class \<open>E\<close> or of a class derived from \<open>E\<close>, or a value that converts to \<open>E\<close> as a handler
  allows. In every other case (another exception, or none) it throws a \<open>TestFailure\<close> of
  type \<open>exception\<close> that names \<open>E\<close>.
\<close>

theorem expectException_succeeds_iff_caught:
  "(snd (expectException X E expr msg li w) = None \<longleftrightarrow>
      (\<exists>x. snd (expr w) = Some x \<and> handler_matches X (Catch E) x)) \<and>
   (snd (expectException X E expr msg li w) \<noteq> None \<longleftrightarrow>
      (\<exists>f. snd (expectException X E expr msg li w) = Some (Thrown_TestFailure f) \<and>
           failure_type f = exception \<and> exception_type f = Some (c_str (type_name X E)) \<and>
           tf_class f = ty_TestFailure X (ty_bool X) (ty_bool X) (Some E)))"
  unfolding expectException_def find_handler_expectException
  by (auto simp add: fail_exception_def FailureTest_def Let_def split: prod.split option.split)

text \<open>The claim as stated fails: \<open>expectException<std::exception>\<close> around a procedure that
  throws a \<open>std::domain_error\<close>, an exception of another kind, returns.\<close>

theorem expectException_accepts_derived_class:
  "T_domain_error \<noteq> T_exception \<and>
   expectException ex_cxx T_exception
     (\<lambda>w. (w, Some (thrown_object T_domain_error ''out of domain''))) [] LineInfo_default
     \<lparr>now = 0, user = ()\<rparr> = (\<lparr>now = 0, user = ()\<rparr>, None)"
  by (simp add: expectException_def thrown_object_def)

text \<open>Cases: a thrown value that the handler of \<open>E\<close> matches; nothing thrown; a thrown
  \<open>int*\<close> expected as \<open>void*\<close>; and the \<open>TestFailure\<close> of \<open>fail\<close> expected by its own
  class.\<close>

lemma expectException_same_class:
  "matched E \<Longrightarrow>
   snd (expectException X E (\<lambda>w. (w, Some (Thrown_value matched what))) msg li w) = None"
  by (simp add: expectException_def)

lemma expectException_nothing_thrown:
  "snd (expectException X E (\<lambda>w. (w, None)) msg li w) = fail_exception X E msg li"
  by (simp add: expectException_def)

lemma expectException_pointer_conversion:
  "snd (expectException ex_cxx T_void_ptr (\<lambda>w. (w, Some (thrown_object T_int_ptr [])))
     msg li w) = None"
  by (simp add: expectException_def thrown_object_def)

lemma expectException_own_TestFailure:
  "snd (expectException X (ty_TestFailure X (ty_bool X) (ty_bool X) None)
     (\<lambda>w. (w, fail X m l)) msg li w) = None"
  by (simp add: expectException_def fail_def FailureTest_def)

section \<open>The loop of \<open>run_tests\<close>\<close>

subsection \<open>\<open>notify\<close>\<close>

text \<open>Once an exception is in flight nothing more is done; \<open>notify\<close> changes neither the
  manager nor the tests.\<close>

lemma notify_observer_stuck: "raised s \<noteq> None \<Longrightarrow> notify_observer upd i h s = s"
  by (simp add: notify_observer_def)

lemma fold_notify_stuck: "raised s \<noteq> None \<Longrightarrow> fold (notify_observer upd i) hs s = s"
  by (induction hs) (simp_all add: notify_observer_stuck)

lemma notify_observer_frame:
  "mgr (notify_observer upd i h s) = mgr s \<and> tests (notify_observer upd i h s) = tests s"
  by (simp add: notify_observer_def split: prod.split)

lemma fold_notify_frame:
  "mgr (fold (notify_observer upd i) hs s) = mgr s \<and>
   tests (fold (notify_observer upd i) hs s) = tests s"
  by (induction hs arbitrary: s) (simp_all add: notify_observer_frame)

lemma notify_mgr [simp]: "mgr (notify upd i s) = mgr s"
  by (simp add: notify_def fold_notify_frame)

lemma notify_tests [simp]: "tests (notify upd i s) = tests s"
  by (simp add: notify_def fold_notify_frame)

lemma notify_observer_raised:
  "raised (notify_observer upd i h s) = None \<Longrightarrow> raised s = None"
  by (cases "raised s") (simp_all add: notify_observer_def)

lemma fold_notify_raised:
  "raised (fold (notify_observer upd i) hs s) = None \<Longrightarrow> raised s = None"
  by (induction hs arbitrary: s) (auto dest: notify_observer_raised)

text \<open>The calls a notify makes are calls of observers of the list, in order, up to the
  one that throws.\<close>

lemma fold_notify_calls_prefix:
  "\<exists>j. calls (fold (notify_observer upd i) hs s) = calls s @ map (\<lambda>h. (h, i)) (take j hs)"
proof (induction hs arbitrary: s)
  case Nil
  then show ?case by simp
next
  case (Cons h hs)
  show ?case
  proof (cases "raised s")
    case None
    obtain j where j: "calls (fold (notify_observer upd i) hs (notify_observer upd i h s)) =
        calls (notify_observer upd i h s) @ map (\<lambda>h. (h, i)) (take j hs)"
      using Cons.IH by blast
    have "calls (notify_observer upd i h s) = calls s @ [(h, i)]"
      using None by (simp add: notify_observer_def split: prod.split)
    with j have "calls (fold (notify_observer upd i) (h # hs) s) =
        calls s @ map (\<lambda>h. (h, i)) (take (Suc j) (h # hs))"
      by simp
    then show ?thesis by blast
  next
    case (Some x)
    then have "fold (notify_observer upd i) (h # hs) s = s"
      by (intro fold_notify_stuck) simp
    then have "calls (fold (notify_observer upd i) (h # hs) s) =
        calls s @ map (\<lambda>h. (h, i)) (take 0 (h # hs))"
      by simp
    then show ?thesis by blast
  qed
qed

text \<open>A notify that returns has called every observer, each returning.\<close>

lemma fold_notify_complete:
  "raised (fold (notify_observer upd i) hs s) = None \<Longrightarrow>
   calls (fold (notify_observer upd i) hs s) = calls s @ map (\<lambda>h. (h, i)) hs \<and>
   world (fold (notify_observer upd i) hs s) =
     fold (\<lambda>h w. fst (upd h (tests s ! i) w)) hs (world s)"
proof (induction hs arbitrary: s)
  case Nil
  then show ?case by simp
next
  case (Cons h hs)
  let ?s1 = "notify_observer upd i h s"
  from Cons.prems have r1: "raised ?s1 = None"
    by (auto dest: fold_notify_raised)
  then have r0: "raised s = None"
    by (rule notify_observer_raised)
  have c1: "calls ?s1 = calls s @ [(h, i)]"
    and w1: "world ?s1 = fst (upd h (tests s ! i) (world s))"
    and t1: "tests ?s1 = tests s"
    using r0 by (simp_all add: notify_observer_def split: prod.split)
  from Cons.IH [of ?s1] Cons.prems show ?case
    by (simp add: c1 w1 t1)
qed

lemma notify_raised: "raised (notify upd i s) = None \<Longrightarrow> raised s = None"
  by (auto simp: notify_def dest: fold_notify_raised)

lemma notify_complete:
  "raised (notify upd i s) = None \<Longrightarrow>
   calls (notify upd i s) = calls s @ map (\<lambda>h. (h, i)) (list_observers (mgr s)) \<and>
   world (notify upd i s) =
     fold (\<lambda>h w. fst (upd h (tests s ! i) w)) (list_observers (mgr s)) (world s)"
  unfolding notify_def by (rule fold_notify_complete)

lemma notify_calls_prefix:
  "\<exists>j. calls (notify upd i s) = calls s @ map (\<lambda>h. (h, i)) (take j (list_observers (mgr s)))"
  unfolding notify_def by (rule fold_notify_calls_prefix)

subsection \<open>\<open>run_test\<close> and \<open>file_test\<close>\<close>

text \<open>\<open>test->run()\<close> does not throw, so the first part of the body leaves no exception in
  flight that was not there.\<close>

lemma run_test_raised [simp]: "raised (run_test X i s) = raised s"
proof (cases "raised s")
  case None
  obtain t' w' r where tr: "Test_run X (tests s ! i) (world s) = (t', w', r)"
    by (cases "Test_run X (tests s ! i) (world s)") auto
  with Test_run_returns [of X "tests s ! i" "world s"] have "r = None" by simp
  with None tr show ?thesis by (simp add: run_test_def)
next
  case (Some x)
  then show ?thesis by (simp add: run_test_def)
qed

lemma run_test_eq:
  "raised s = None \<Longrightarrow>
   run_test X i s =
     s\<lparr>tests := (tests s)[i := fst (Test_run X (tests s ! i) (world s))],
       world := fst (snd (Test_run X (tests s ! i) (world s))),
       mgr := (mgr s)\<lparr>exec_time_ms_accumulator :=
                exec_time_ms_accumulator (mgr s) +
                getExecTimeMs (fst (Test_run X (tests s ! i) (world s)))\<rparr>\<rparr>"
proof -
  assume n: "raised s = None"
  obtain t' w' r where tr: "Test_run X (tests s ! i) (world s) = (t', w', r)"
    by (cases "Test_run X (tests s ! i) (world s)") auto
  with Test_run_returns [of X "tests s ! i" "world s"] have "r = None" by simp
  with n tr show ?thesis by (simp add: run_test_def)
qed

lemma run_test_stuck: "raised s \<noteq> None \<Longrightarrow> run_test X i s = s"
  by (simp add: run_test_def)

lemma run_test_calls [simp]: "calls (run_test X i s) = calls s"
  by (cases "raised s") (simp_all add: run_test_eq run_test_stuck)

lemma run_test_run [simp]: "run (mgr (run_test X i s)) = run (mgr s)"
  by (cases "raised s") (simp_all add: run_test_eq run_test_stuck)

lemma run_test_observers [simp]: "list_observers (mgr (run_test X i s)) = list_observers (mgr s)"
  by (cases "raised s") (simp_all add: run_test_eq run_test_stuck)

lemma run_test_length [simp]: "length (tests (run_test X i s)) = length (tests s)"
  by (cases "raised s") (simp_all add: run_test_eq run_test_stuck)

lemma run_test_other: "j \<noteq> i \<Longrightarrow> tests (run_test X i s) ! j = tests s ! j"
  by (cases "raised s") (simp_all add: run_test_eq run_test_stuck)

lemma run_test_buckets [simp]:
  "tests_passed (mgr (run_test X i s)) = tests_passed (mgr s)"
  "tests_failed (mgr (run_test X i s)) = tests_failed (mgr s)"
  "tests_skipped (mgr (run_test X i s)) = tests_skipped (mgr s)"
  "tests_with_error (mgr (run_test X i s)) = tests_with_error (mgr s)"
  by (cases "raised s"; simp add: run_test_eq run_test_stuck)+

lemma file_test_tests [simp]: "tests (file_test i s) = tests s"
  by (simp add: file_test_def)

lemma file_test_calls [simp]: "calls (file_test i s) = calls s"
  by (simp add: file_test_def)

lemma file_test_world [simp]: "world (file_test i s) = world s"
  by (simp add: file_test_def)

lemma file_test_raised [simp]: "raised (file_test i s) = raised s"
  by (simp add: file_test_def)

lemma file_test_run [simp]: "run (mgr (file_test i s)) = run (mgr s)"
  by (simp add: file_test_def split: Status.split)

lemma file_test_observers [simp]: "list_observers (mgr (file_test i s)) = list_observers (mgr s)"
  by (simp add: file_test_def split: Status.split)

lemma file_test_accumulator [simp]:
  "exec_time_ms_accumulator (mgr (file_test i s)) = exec_time_ms_accumulator (mgr s)"
  by (simp add: file_test_def split: Status.split)

lemma file_test_buckets:
  "raised s = None \<Longrightarrow>
   tests_passed (mgr (file_test i s)) =
     tests_passed (mgr s) @ (if status (tests s ! i) = PASSED then [i] else [])"
  "raised s = None \<Longrightarrow>
   tests_failed (mgr (file_test i s)) =
     tests_failed (mgr s) @ (if status (tests s ! i) = FAILED then [i] else [])"
  "raised s = None \<Longrightarrow>
   tests_skipped (mgr (file_test i s)) =
     tests_skipped (mgr s) @ (if status (tests s ! i) = SKIPPED then [i] else [])"
  "raised s = None \<Longrightarrow>
   tests_with_error (mgr (file_test i s)) =
     tests_with_error (mgr s) @ (if status (tests s ! i) = ERROR then [i] else [])"
  by (simp_all add: file_test_def getStatus_def split: Status.split)

subsection \<open>One iteration\<close>

lemma loop_body_stuck: "raised s \<noteq> None \<Longrightarrow> loop_body X upd i s = s"
  by (simp add: loop_body_def run_test_stuck notify_def fold_notify_stuck file_test_def)

lemma loop_body_raised: "raised (loop_body X upd i s) = None \<Longrightarrow> raised s = None"
  by (auto simp: loop_body_def dest: notify_raised)

lemma loop_body_run [simp]: "run (mgr (loop_body X upd i s)) = run (mgr s)"
  by (simp add: loop_body_def)

lemma loop_body_observers [simp]:
  "list_observers (mgr (loop_body X upd i s)) = list_observers (mgr s)"
  by (simp add: loop_body_def)

lemma loop_body_length [simp]: "length (tests (loop_body X upd i s)) = length (tests s)"
  by (simp add: loop_body_def)

lemma loop_body_other: "j \<noteq> i \<Longrightarrow> tests (loop_body X upd i s) ! j = tests s ! j"
  by (simp add: loop_body_def run_test_other)

lemma loop_body_calls_prefix:
  "\<exists>j. calls (loop_body X upd i s) = calls s @ map (\<lambda>h. (h, i)) (take j (list_observers (mgr s)))"
  using notify_calls_prefix [of upd i "run_test X i s"]
  by (simp add: loop_body_def)

text \<open>An iteration that completes.\<close>

lemma loop_body_complete:
  assumes "raised (loop_body X upd i s) = None"
  shows "tests (loop_body X upd i s) = (tests s)[i := fst (Test_run X (tests s ! i) (world s))]"
    and "calls (loop_body X upd i s) = calls s @ map (\<lambda>h. (h, i)) (list_observers (mgr s))"
    and "exec_time_ms_accumulator (mgr (loop_body X upd i s)) =
           exec_time_ms_accumulator (mgr s) +
           getExecTimeMs (fst (Test_run X (tests s ! i) (world s)))"
    and "world (loop_body X upd i s) =
           fold (\<lambda>h w. fst (upd h (tests (loop_body X upd i s) ! i) w)) (list_observers (mgr s))
             (fst (snd (Test_run X (tests s ! i) (world s))))"
    and "tests_passed (mgr (loop_body X upd i s)) =
           tests_passed (mgr s) @
           (if status (tests (loop_body X upd i s) ! i) = PASSED then [i] else [])"
    and "tests_failed (mgr (loop_body X upd i s)) =
           tests_failed (mgr s) @
           (if status (tests (loop_body X upd i s) ! i) = FAILED then [i] else [])"
    and "tests_skipped (mgr (loop_body X upd i s)) =
           tests_skipped (mgr s) @
           (if status (tests (loop_body X upd i s) ! i) = SKIPPED then [i] else [])"
    and "tests_with_error (mgr (loop_body X upd i s)) =
           tests_with_error (mgr s) @
           (if status (tests (loop_body X upd i s) ! i) = ERROR then [i] else [])"
proof -
  let ?s1 = "run_test X i s"
  let ?s2 = "notify upd i ?s1"
  from assms have r2: "raised ?s2 = None"
    by (simp add: loop_body_def)
  then have r1: "raised ?s1 = None"
    by (rule notify_raised)
  then have r0: "raised s = None"
    by simp
  note s1 = run_test_eq [OF r0, of X i]
  note n = notify_complete [OF r2]
  show "tests (loop_body X upd i s) = (tests s)[i := fst (Test_run X (tests s ! i) (world s))]"
    by (simp add: loop_body_def s1)
  show "calls (loop_body X upd i s) = calls s @ map (\<lambda>h. (h, i)) (list_observers (mgr s))"
    using n by (simp add: loop_body_def)
  show "exec_time_ms_accumulator (mgr (loop_body X upd i s)) =
           exec_time_ms_accumulator (mgr s) +
           getExecTimeMs (fst (Test_run X (tests s ! i) (world s)))"
    by (simp add: loop_body_def s1)
  show "world (loop_body X upd i s) =
           fold (\<lambda>h w. fst (upd h (tests (loop_body X upd i s) ! i) w)) (list_observers (mgr s))
             (fst (snd (Test_run X (tests s ! i) (world s))))"
    using n by (simp add: loop_body_def) (simp add: s1)
  show "tests_passed (mgr (loop_body X upd i s)) =
           tests_passed (mgr s) @
           (if status (tests (loop_body X upd i s) ! i) = PASSED then [i] else [])"
    using r2 by (simp add: loop_body_def file_test_buckets)
  show "tests_failed (mgr (loop_body X upd i s)) =
           tests_failed (mgr s) @
           (if status (tests (loop_body X upd i s) ! i) = FAILED then [i] else [])"
    using r2 by (simp add: loop_body_def file_test_buckets)
  show "tests_skipped (mgr (loop_body X upd i s)) =
           tests_skipped (mgr s) @
           (if status (tests (loop_body X upd i s) ! i) = SKIPPED then [i] else [])"
    using r2 by (simp add: loop_body_def file_test_buckets)
  show "tests_with_error (mgr (loop_body X upd i s)) =
           tests_with_error (mgr s) @
           (if status (tests (loop_body X upd i s) ! i) = ERROR then [i] else [])"
    using r2 by (simp add: loop_body_def file_test_buckets)
qed

subsection \<open>The state after \<open>k\<close> tests\<close>

lemma loop_head_0 [simp]: "loop_head X upd 0 s = s"
  by (simp add: loop_head_def)

lemma loop_head_Suc: "loop_head X upd (Suc k) s = loop_body X upd k (loop_head X upd k s)"
  by (simp add: loop_head_def)

lemma loop_head_length [simp]: "length (tests (loop_head X upd k s)) = length (tests s)"
  by (induction k) (simp_all add: loop_head_Suc)

lemma loop_head_run [simp]: "run (mgr (loop_head X upd k s)) = run (mgr s)"
  by (induction k) (simp_all add: loop_head_Suc)

lemma loop_head_observers [simp]:
  "list_observers (mgr (loop_head X upd k s)) = list_observers (mgr s)"
  by (induction k) (simp_all add: loop_head_Suc)


lemma loop_head_raised:
  "raised (loop_head X upd k s) = None \<Longrightarrow> j \<le> k \<Longrightarrow> raised (loop_head X upd j s) = None"
proof (induction k)
  case 0
  then show ?case by simp
next
  case (Suc k)
  from Suc.prems(1) have "raised (loop_head X upd k s) = None"
    by (auto simp: loop_head_Suc dest: loop_body_raised)
  with Suc show ?case
    by (cases "j = Suc k") simp_all
qed



text \<open>Whether or not the loop completes, the calls it adds are calls of observers of the
  set.\<close>

lemma loop_head_calls_of_observers:
  "\<exists>e. calls (loop_head X upd k s) = calls s @ e \<and> fst ` set e \<subseteq> set (list_observers (mgr s))"
proof (induction k)
  case 0
  then show ?case by simp
next
  case (Suc k)
  then obtain e where e: "calls (loop_head X upd k s) = calls s @ e"
    "fst ` set e \<subseteq> set (list_observers (mgr s))"
    by blast
  obtain j where j: "calls (loop_body X upd k (loop_head X upd k s)) =
      calls (loop_head X upd k s) @ map (\<lambda>h. (h, k)) (take j (list_observers (mgr s)))"
    using loop_body_calls_prefix [of X upd k "loop_head X upd k s"] by auto
  let ?e = "e @ map (\<lambda>h. (h, k)) (take j (list_observers (mgr s)))"
  have "fst ` set (map (\<lambda>h. (h, k)) (take j (list_observers (mgr s))))
        \<subseteq> set (list_observers (mgr s))"
    by (auto dest: in_set_takeD)
  with e j have "calls (loop_head X upd (Suc k) s) = calls s @ ?e \<and>
      fst ` set ?e \<subseteq> set (list_observers (mgr s))"
    by (simp add: loop_head_Suc image_Un)
  then show ?case by blast
qed


lemma loop_body_filter_earlier:
  "filter (\<lambda>i. status (tests (loop_body X upd k s) ! i) = st) [0..<k] =
   filter (\<lambda>i. status (tests s ! i) = st) [0..<k]"
  by (rule filter_cong) (simp_all add: loop_body_other)

lemma loop_head_buckets:
  "raised (loop_head X upd k s) = None \<Longrightarrow>
   tests_passed (mgr (loop_head X upd k s)) =
     tests_passed (mgr s) @
     filter (\<lambda>i. status (tests (loop_head X upd k s) ! i) = PASSED) [0..<k] \<and>
   tests_failed (mgr (loop_head X upd k s)) =
     tests_failed (mgr s) @
     filter (\<lambda>i. status (tests (loop_head X upd k s) ! i) = FAILED) [0..<k] \<and>
   tests_skipped (mgr (loop_head X upd k s)) =
     tests_skipped (mgr s) @
     filter (\<lambda>i. status (tests (loop_head X upd k s) ! i) = SKIPPED) [0..<k] \<and>
   tests_with_error (mgr (loop_head X upd k s)) =
     tests_with_error (mgr s) @
     filter (\<lambda>i. status (tests (loop_head X upd k s) ! i) = ERROR) [0..<k]"
proof (induction k)
  case 0
  then show ?case by simp
next
  case (Suc k)
  from Suc.prems have r: "raised (loop_body X upd k (loop_head X upd k s)) = None"
    by (simp add: loop_head_Suc)
  from Suc.prems have "raised (loop_head X upd k s) = None"
    by (rule loop_head_raised) simp
  with Suc.IH show ?case
    by (simp add: loop_head_Suc loop_body_complete(5-8) [OF r] loop_body_filter_earlier)
qed

lemma loop_head_status:
  "raised (loop_head X upd k s) = None \<Longrightarrow> i < k \<Longrightarrow> k \<le> length (tests s) \<Longrightarrow>
   status (tests (loop_head X upd k s) ! i) \<noteq> NONE"
proof (induction k)
  case 0
  then show ?case by simp
next
  case (Suc k)
  from Suc.prems(1) have r: "raised (loop_body X upd k (loop_head X upd k s)) = None"
    by (simp add: loop_head_Suc)
  from Suc.prems(1) have r': "raised (loop_head X upd k s) = None"
    by (rule loop_head_raised) simp
  show ?case
  proof (cases "i = k")
    case True
    with Suc.prems show ?thesis
      by (simp add: loop_head_Suc loop_body_complete(1) [OF r] Test_run_status)
  next
    case False
    with Suc r' show ?thesis
      by (simp add: loop_head_Suc loop_body_other)
  qed
qed





subsection \<open>The state after \<open>run_tests\<close>\<close>

lemma run_tests_raised:
  "raised (run_tests X upd s) = raised (loop_head X upd (length (tests s)) (s\<lparr>raised := None\<rparr>))"
  by (simp add: run_tests_def Let_def)

lemma run_tests_tests:
  "tests (run_tests X upd s) = tests (loop_head X upd (length (tests s)) (s\<lparr>raised := None\<rparr>))"
  by (simp add: run_tests_def Let_def)

lemma run_tests_length [simp]: "length (tests (run_tests X upd s)) = length (tests s)"
  by (simp add: run_tests_tests)

lemma run_tests_observers [simp]:
  "list_observers (mgr (run_tests X upd s)) = list_observers (mgr s)"
  by (simp add: run_tests_def Let_def)

lemma run_tests_run:
  "run (mgr (run_tests X upd s)) \<longleftrightarrow> run (mgr s) \<or> raised (run_tests X upd s) = None"
  by (cases "raised (loop_head X upd (length (tests s)) (s\<lparr>raised := None\<rparr>))")
    (simp_all add: run_tests_def Let_def)

lemma run_tests_calls_of_observers:
  "\<exists>e. calls (run_tests X upd s) = calls s @ e \<and> fst ` set e \<subseteq> set (list_observers (mgr s))"
  using loop_head_calls_of_observers [of X upd "length (tests s)" "s\<lparr>raised := None\<rparr>"]
  by (simp add: run_tests_def Let_def)

text \<open>A run that completes.\<close>

lemma run_tests_complete:
  assumes "raised (run_tests X upd s) = None"
  shows "raised (loop_head X upd (length (tests s)) (s\<lparr>raised := None\<rparr>)) = None"
    and "run_tests X upd s =
         (loop_head X upd (length (tests s)) (s\<lparr>raised := None\<rparr>))
           \<lparr>mgr := (mgr (loop_head X upd (length (tests s)) (s\<lparr>raised := None\<rparr>)))
                     \<lparr>run := True\<rparr>\<rparr>"
proof -
  from assms show r: "raised (loop_head X upd (length (tests s)) (s\<lparr>raised := None\<rparr>)) = None"
    by (simp add: run_tests_raised)
  then show "run_tests X upd s =
         (loop_head X upd (length (tests s)) (s\<lparr>raised := None\<rparr>))
           \<lparr>mgr := (mgr (loop_head X upd (length (tests s)) (s\<lparr>raised := None\<rparr>)))
                     \<lparr>run := True\<rparr>\<rparr>"
    by (simp add: run_tests_def Let_def)
qed



lemma run_tests_buckets:
  assumes "raised (run_tests X upd s) = None"
  shows "tests_passed (mgr (run_tests X upd s)) =
     tests_passed (mgr s) @
     filter (\<lambda>i. status (tests (run_tests X upd s) ! i) = PASSED) [0..<length (tests s)]"
  and "tests_failed (mgr (run_tests X upd s)) =
     tests_failed (mgr s) @
     filter (\<lambda>i. status (tests (run_tests X upd s) ! i) = FAILED) [0..<length (tests s)]"
  and "tests_skipped (mgr (run_tests X upd s)) =
     tests_skipped (mgr s) @
     filter (\<lambda>i. status (tests (run_tests X upd s) ! i) = SKIPPED) [0..<length (tests s)]"
  and "tests_with_error (mgr (run_tests X upd s)) =
     tests_with_error (mgr s) @
     filter (\<lambda>i. status (tests (run_tests X upd s) ! i) = ERROR) [0..<length (tests s)]"
  using loop_head_buckets [OF run_tests_complete(1) [OF assms]]
  by (simp_all add: run_tests_complete(2) [OF assms])

lemma run_tests_status:
  assumes "raised (run_tests X upd s) = None" and "i < length (tests s)"
  shows "status (tests (run_tests X upd s) ! i) \<noteq> NONE"
  using loop_head_status [OF run_tests_complete(1) [OF assms(1)], of i] assms(2)
  by (simp add: run_tests_complete(2) [OF assms(1)])


text \<open>With observers that never throw, every run completes.\<close>

lemma fold_notify_quiet:
  "\<forall>h t w. snd (upd h t w) = None \<Longrightarrow> raised s = None \<Longrightarrow>
   raised (fold (notify_observer upd i) hs s) = None"
proof (induction hs arbitrary: s)
  case Nil
  then show ?case by simp
next
  case (Cons h hs)
  from Cons.prems have "raised (notify_observer upd i h s) = None"
    by (simp add: notify_observer_def split: prod.split) (metis snd_conv)
  with Cons show ?case by simp
qed

lemma loop_head_quiet:
  "\<forall>h t w. snd (upd h t w) = None \<Longrightarrow> raised s = None \<Longrightarrow>
   raised (loop_head X upd k s) = None"
  by (induction k) (simp_all add: loop_head_Suc loop_body_def notify_def fold_notify_quiet)

lemma run_tests_quiet:
  "\<forall>h t w. snd (upd h t w) = None \<Longrightarrow> raised (run_tests X upd s) = None"
  by (simp add: run_tests_raised loop_head_quiet)

text \<open>Lists split by status: when no element has status \<open>NONE\<close>, the four filters
  cover the list, each element once.\<close>

lemma status_filters_length:
  "\<forall>i\<in>set xs. f i \<noteq> NONE \<Longrightarrow>
   length (filter (\<lambda>i. f i = PASSED) xs) + length (filter (\<lambda>i. f i = FAILED) xs) +
   length (filter (\<lambda>i. f i = ERROR) xs) + length (filter (\<lambda>i. f i = SKIPPED) xs) = length xs"
proof (induction xs)
  case Nil
  then show ?case by simp
next
  case (Cons x xs)
  then show ?case by (cases "f x") simp_all
qed

lemma status_filters_distinct:
  "distinct xs \<Longrightarrow>
   distinct (filter (\<lambda>i. f i = PASSED) xs @ filter (\<lambda>i. f i = FAILED) xs @
             filter (\<lambda>i. f i = SKIPPED) xs @ filter (\<lambda>i. f i = ERROR) xs)"
  by auto

lemma status_filters_set:
  "\<forall>i\<in>set xs. f i \<noteq> NONE \<Longrightarrow>
   set (filter (\<lambda>i. f i = PASSED) xs @ filter (\<lambda>i. f i = FAILED) xs @
        filter (\<lambda>i. f i = SKIPPED) xs @ filter (\<lambda>i. f i = ERROR) xs) = set xs"
proof -
  assume a: "\<forall>i\<in>set xs. f i \<noteq> NONE"
  have "\<And>i. i \<in> set xs \<Longrightarrow> f i = PASSED \<or> f i = FAILED \<or> f i = SKIPPED \<or> f i = ERROR"
  proof -
    fix i assume "i \<in> set xs"
    with a have "f i \<noteq> NONE" by simp
    then show "f i = PASSED \<or> f i = FAILED \<or> f i = SKIPPED \<or> f i = ERROR"
      by (cases "f i") simp_all
  qed
  then show ?thesis by auto
qed

subsection \<open>The observer set and the members of a manager that has not run\<close>

lemma observers_ctor: "sorted_wrt (<) (list_observers RegistryManager_ctor)"
  by (simp add: RegistryManager_ctor_def)

lemma observers_add:
  "sorted_wrt (<) (list_observers m) \<Longrightarrow> sorted_wrt (<) (list_observers (addObserver h m))"
  by (simp add: addObserver_def strict_sorted_iff sorted_insort distinct_insort)

lemma observers_remove:
  "sorted_wrt (<) (list_observers m) \<Longrightarrow> sorted_wrt (<) (list_observers (removeObserver h m))"
  by (simp add: removeObserver_def sorted_wrt_filter removeAll_filter_not_eq)

lemma not_run_yet_ctor: "not_run_yet RegistryManager_ctor"
  by (simp add: not_run_yet_def RegistryManager_ctor_def)

lemma not_run_yet_add: "not_run_yet (addObserver h m) = not_run_yet m"
  by (simp add: not_run_yet_def addObserver_def)

lemma not_run_yet_remove: "not_run_yet (removeObserver h m) = not_run_yet m"
  by (simp add: not_run_yet_def removeObserver_def)

lemma no_effect_quiet: "\<forall>h t w. snd (no_effect h t w) = None"
  by (simp add: no_effect_def)


lemma ex_not_run_yet: "not_run_yet (mgr ex_state)"
  by (simp add: not_run_yet_def ex_defs)

lemma ex_length: "length (tests ex_state) = 4"
  by (simp add: ex_defs)


lemma at_notify_run: "run (mgr (at_notify X upd k s)) = run (mgr s)"
  by (simp add: at_notify_def)

lemma callback_mgr: "mgr (fold (notify_observer upd k) hs s) = mgr s"
  by (simp add: fold_notify_frame)

lemma ex_completes: "raised (run_tests X no_effect s) = None"
  by (rule run_tests_quiet) (rule no_effect_quiet)



section \<open>The results of a scenario\<close>

text \<open>
  Claim C2. A manager that has not run, whatever its observers, runs the \<open>n\<close> registered
  tests once, and the run completes: no \<open>update\<close> throws out of it. Then each bucket
  holds, in registration order, the tests whose status after the run is the bucket's; the
  four buckets together hold every index below \<open>n\<close> and none twice; the four counts add
  up to \<open>n\<close>, which is also the count of all tests.
\<close>

theorem single_run_partitions_tests:
  assumes "not_run_yet (mgr s)" and "raised (run_tests X upd s) = None"
  shows "let s' = run_tests X upd s; m = mgr s'; n = length (tests s) in
     getPassedTests m = filter (\<lambda>i. getStatus (tests s' ! i) = PASSED) [0..<n] \<and>
     getFailedTests m = filter (\<lambda>i. getStatus (tests s' ! i) = FAILED) [0..<n] \<and>
     getSkippedTests m = filter (\<lambda>i. getStatus (tests s' ! i) = SKIPPED) [0..<n] \<and>
     getWithErrorTests m = filter (\<lambda>i. getStatus (tests s' ! i) = ERROR) [0..<n] \<and>
     distinct (getPassedTests m @ getFailedTests m @ getSkippedTests m @ getWithErrorTests m) \<and>
     set (getPassedTests m @ getFailedTests m @ getSkippedTests m @ getWithErrorTests m)
       = {0..<n} \<and>
     getPassedCount m + getFailedCount m + getWithErrorCount m + getSkippedCount m = n \<and>
     getAllTestsCount m (tests s') = n"
proof -
  let ?s' = "run_tests X upd s"
  let ?n = "length (tests s)"
  let ?f = "\<lambda>i. status (tests ?s' ! i)"
  note fin = assms(2)
  from assms(1) have empty: "tests_passed (mgr s) = []" "tests_failed (mgr s) = []"
    "tests_skipped (mgr s) = []" "tests_with_error (mgr s) = []"
    by (simp_all add: not_run_yet_def)
  have r: "run (mgr ?s')"
    using fin by (simp add: run_tests_run)
  have none: "\<forall>i\<in>set [0..<?n]. ?f i \<noteq> NONE"
    using fin by (simp add: run_tests_status)
  have p: "tests_passed (mgr ?s') = filter (\<lambda>i. ?f i = PASSED) [0..<?n]"
    and f: "tests_failed (mgr ?s') = filter (\<lambda>i. ?f i = FAILED) [0..<?n]"
    and k: "tests_skipped (mgr ?s') = filter (\<lambda>i. ?f i = SKIPPED) [0..<?n]"
    and e: "tests_with_error (mgr ?s') = filter (\<lambda>i. ?f i = ERROR) [0..<?n]"
    by (simp_all add: run_tests_buckets [OF fin] empty)
  have d: "distinct (tests_passed (mgr ?s') @ tests_failed (mgr ?s') @
                     tests_skipped (mgr ?s') @ tests_with_error (mgr ?s'))"
    unfolding p f k e by (rule status_filters_distinct) simp
  have st: "set (tests_passed (mgr ?s') @ tests_failed (mgr ?s') @
                 tests_skipped (mgr ?s') @ tests_with_error (mgr ?s')) = {0..<?n}"
    unfolding p f k e using status_filters_set [OF none] by simp
  have c: "length (tests_passed (mgr ?s')) + length (tests_failed (mgr ?s')) +
           length (tests_with_error (mgr ?s')) + length (tests_skipped (mgr ?s')) = ?n"
    unfolding p f k e using status_filters_length [OF none] by simp
  show ?thesis
    unfolding Let_def accessor_defs getStatus_def
    using p f k e d st c r by simp
qed

text \<open>The theorem at the example scenario: its four counts add up to 4.\<close>

theorem single_run_partitions_tests_witness:
  "not_run_yet (mgr ex_state) \<and> raised (run_tests ex_cxx no_effect ex_state) = None \<and>
   getPassedCount (mgr (run_tests ex_cxx no_effect ex_state)) +
   getFailedCount (mgr (run_tests ex_cxx no_effect ex_state)) +
   getWithErrorCount (mgr (run_tests ex_cxx no_effect ex_state)) +
   getSkippedCount (mgr (run_tests ex_cxx no_effect ex_state)) = 4"
proof -
  from single_run_partitions_tests [OF ex_not_run_yet ex_completes, of ex_cxx]
  have "getPassedCount (mgr (run_tests ex_cxx no_effect ex_state)) +
   getFailedCount (mgr (run_tests ex_cxx no_effect ex_state)) +
   getWithErrorCount (mgr (run_tests ex_cxx no_effect ex_state)) +
   getSkippedCount (mgr (run_tests ex_cxx no_effect ex_state)) = length (tests ex_state)"
    unfolding Let_def by (elim conjE)
  with ex_not_run_yet ex_length ex_completes [of ex_cxx ex_state] show ?thesis by simp
qed

text \<open>
  Claim C3, as the code has it. While a manager that has not run before is anywhere
  between its construction and the end of the loop of its first run (\<open>k\<close> tests done, for
  any \<open>k\<close> up to the number registered), the five counts and the total duration are zero.
  The list accessors are not gated by \<open>run_\<close>: before the run is invoked the four bucket
  lists are empty, because nothing is filed yet, and the list of all tests is the
  registered list itself.
\<close>

theorem accessors_before_completion:
  assumes "not_run_yet (mgr s)" and "k \<le> length (tests s)"
  shows "(let m = mgr (loop_head X upd k s) in
            getPassedCount m = 0 \<and> getFailedCount m = 0 \<and> getSkippedCount m = 0 \<and>
            getWithErrorCount m = 0 \<and> getAllTestsCount m (tests (loop_head X upd k s)) = 0 \<and>
            getAllTestsExecTimeMs m = 0) \<and>
         getPassedTests (mgr s) = [] \<and> getFailedTests (mgr s) = [] \<and>
         getSkippedTests (mgr s) = [] \<and> getWithErrorTests (mgr s) = [] \<and>
         getAllTests (mgr s) (tests s) = tests s"
  using assms(1)
  by (simp add: Let_def accessor_defs not_run_yet_def)

text \<open>The theorem at the example scenario, two tests into the run.\<close>

theorem accessors_before_completion_witness:
  "not_run_yet (mgr ex_state) \<and> 2 \<le> length (tests ex_state) \<and>
   getPassedCount (mgr (loop_head ex_cxx no_effect 2 ex_state)) = 0 \<and>
   getAllTests (mgr ex_state) (tests ex_state) = ex_tests"
proof -
  have h2: "2 \<le> length (tests ex_state)"
    by (simp add: ex_length)
  have "tests ex_state = ex_tests"
    by (simp add: ex_state_def)
  with accessors_before_completion [OF ex_not_run_yet h2, of ex_cxx no_effect]
    ex_not_run_yet h2
  show ?thesis
    by (simp add: Let_def)
qed

text \<open>The claim as stated fails on the example scenario: before any run the list of all
  tests has its four tests, and one test into the run, \<open>run_\<close> still false, the list of
  passed tests holds test 0.\<close>

theorem list_accessors_not_gated:
  "\<not> run (mgr ex_state) \<and> length (getAllTests (mgr ex_state) (tests ex_state)) = 4 \<and>
   \<not> run (mgr (loop_head ex_cxx no_effect 1 ex_state)) \<and>
   getPassedTests (mgr (loop_head ex_cxx no_effect 1 ex_state)) = [0]"
proof (intro conjI)
  show "\<not> run (mgr ex_state)"
    by (simp add: ex_defs)
  show "length (getAllTests (mgr ex_state) (tests ex_state)) = 4"
    by (simp add: ex_defs accessor_defs)
  show "\<not> run (mgr (loop_head ex_cxx no_effect 1 ex_state))"
    by (simp add: ex_defs)
  show "getPassedTests (mgr (loop_head ex_cxx no_effect 1 ex_state)) = [0]"
    by (simp add: ex_defs run_defs accessor_defs)
qed




section \<open>Observers\<close>



text \<open>When an \<open>update\<close> throws, the exception leaves \<open>notify\<close> and \<open>run_tests\<close>: in the
  example scenario with an observer 9 that throws, the run ends in the \<open>notify\<close> of test
  0, with \<open>run_\<close> false and nothing filed.\<close>

lemma throwing_update_leaves_run_tests:
  "raised (run_tests ex_cxx throwing_9 ex_state) = Some (thrown_object T_runtime_error ''observer'') \<and>
   \<not> run (mgr (run_tests ex_cxx throwing_9 ex_state)) \<and>
   calls (run_tests ex_cxx throwing_9 ex_state) = [(5, 0), (9, 0)] \<and>
   getPassedTests (mgr (run_tests ex_cxx throwing_9 ex_state)) = []"
  by (simp add: ex_defs run_defs accessor_defs throwing_9_def)

text \<open>
  Claim C9. A handle attached to a manager and then detached receives no call in the run
  that follows, whatever the manager, the tests and the other observers are, and whether
  or not the run completes.
\<close>

theorem detached_observer_not_notified:
  "filter (\<lambda>c. fst c = h)
     (drop (length (calls s))
       (calls (run_tests X upd (s\<lparr>mgr := removeObserver h (addObserver h (mgr s))\<rparr>)))) = []"
proof -
  let ?s = "s\<lparr>mgr := removeObserver h (addObserver h (mgr s))\<rparr>"
  obtain e where e: "calls (run_tests X upd ?s) = calls ?s @ e"
    "fst ` set e \<subseteq> set (list_observers (mgr ?s))"
    using run_tests_calls_of_observers [of X upd ?s] by blast
  have "h \<notin> set (list_observers (mgr ?s))"
    by (simp add: removeObserver_def)
  with e(2) have "filter (\<lambda>c. fst c = h) e = []"
    by (auto simp: filter_empty_conv)
  with e(1) show ?thesis by simp
qed

text \<open>
  Claim C10, as the code has it. In a run that starts with \<open>run_\<close> false, that is the first
  run of a manager, \<open>run_\<close> is still false at the \<open>notify\<close> of every test \<open>k\<close> and after any
  number \<open>j\<close> of the \<open>update\<close> calls of that \<open>notify\<close>, so the five counts and the total
  duration read zero there; when \<open>run_tests\<close> is left, \<open>run_\<close> is true iff the loop has
  finished, no exception having left it.
\<close>

theorem counts_hidden_during_first_run:
  assumes "\<not> run (mgr s)" and "k < length (tests s)"
  shows "let s' = fold (notify_observer upd k) (take j (list_observers (mgr s)))
                    (at_notify X upd k s);
             m = mgr s' in
     getPassedCount m = 0 \<and> getFailedCount m = 0 \<and> getSkippedCount m = 0 \<and>
     getWithErrorCount m = 0 \<and> getAllTestsCount m (tests s') = 0 \<and>
     getAllTestsExecTimeMs m = 0 \<and>
     (run (mgr (run_tests X upd s)) \<longleftrightarrow> raised (run_tests X upd s) = None)"
  using assms(1)
  by (simp add: Let_def accessor_defs callback_mgr at_notify_run run_tests_run)

text \<open>The theorem at the example scenario: in the \<open>notify\<close> of test 1, after the first
  observer's \<open>update\<close>; the run completes and \<open>run_\<close> is true after it.\<close>

theorem counts_hidden_during_first_run_witness:
  "\<not> run (mgr ex_state) \<and> 1 < length (tests ex_state) \<and>
   getFailedCount
     (mgr (fold (notify_observer no_effect 1) (take 1 (list_observers (mgr ex_state)))
            (at_notify ex_cxx no_effect 1 ex_state))) = 0 \<and>
   run (mgr (run_tests ex_cxx no_effect ex_state))"
proof -
  have h1: "\<not> run (mgr ex_state)"
    using ex_not_run_yet by (simp add: not_run_yet_def)
  have h2: "1 < length (tests ex_state)"
    by (simp add: ex_length)
  from counts_hidden_during_first_run [OF h1 h2, of no_effect 1 ex_cxx] h1 h2
    ex_completes [of ex_cxx ex_state]
  show ?thesis
    by (simp add: Let_def)
qed

text \<open>The claim as stated fails in a second run of the example scenario: \<open>run_\<close> is true
  from the first run, and at the \<open>notify\<close> of test 0 the count of passed tests reads 1 and
  the count of all tests 4.\<close>

theorem counts_visible_during_second_run:
  "run (mgr (run_tests ex_cxx no_effect ex_state)) \<and>
   getPassedCount (mgr (at_notify ex_cxx no_effect 0 (run_tests ex_cxx no_effect ex_state))) = 1 \<and>
   getAllTestsCount (mgr (at_notify ex_cxx no_effect 0 (run_tests ex_cxx no_effect ex_state)))
     (tests (at_notify ex_cxx no_effect 0 (run_tests ex_cxx no_effect ex_state))) = 4"
proof (intro conjI)
  show "run (mgr (run_tests ex_cxx no_effect ex_state))"
    using ex_completes [of ex_cxx ex_state] by (simp add: run_tests_run)
  show "getPassedCount
      (mgr (at_notify ex_cxx no_effect 0 (run_tests ex_cxx no_effect ex_state))) = 1"
    by (simp add: ex_defs run_defs accessor_defs)
  show "getAllTestsCount (mgr (at_notify ex_cxx no_effect 0 (run_tests ex_cxx no_effect ex_state)))
     (tests (at_notify ex_cxx no_effect 0 (run_tests ex_cxx no_effect ex_state))) = 4"
    by (simp add: ex_defs run_defs accessor_defs)
qed

end
